theory Spec2Isabelle
  imports Complex_Main
begin

section \<open>The marker publisher node of the HRI workspace\<close>

text \<open>
  A shallow embedding of \<^verbatim>\<open>ros2_ws/src/cpp_pubsub/src/marker_publisher.cpp\<close>.

  Conventions of the embedding.
  \<^item> A C++ \<^verbatim>\<open>double\<close> (and the \<^verbatim>\<open>float\<close> colour channels of the message
    type) is read as a \<^typ>\<open>real\<close>, \<^verbatim>\<open>M_PI\<close> as \<^term>\<open>pi\<close> and
    \<^verbatim>\<open>sin\<close> as the real sine: rounding, infinities and NaN are outside the model.
    In particular the quotient \<^verbatim>\<open>(double) count / max_points\<close> is only meaningful
    for \<^verbatim>\<open>max_points\<close> other than zero, and theorems about the values of the
    sampled points assume so.
  \<^item> A C++ \<^verbatim>\<open>int\<close> has 32 bits. Its values are the integers from \<open>INT_MIN\<close> to
    \<open>INT_MAX\<close>, held in an \<^typ>\<open>int\<close>. An arithmetic result or a conversion that
    leaves this range is undefined behaviour in the source language: the model stops
    there with the value \<open>undefined_behaviour\<close>, and says nothing about what a
    compiler makes of it.
  \<^item> \<^verbatim>\<open>std::vector<double>\<close> is a \<^typ>\<open>real list\<close>; the checked access
    \<^verbatim>\<open>.at(i)\<close> throws \<^verbatim>\<open>std::out_of_range\<close>, which is a value of the
    result type here.
  \<^item> \<^verbatim>\<open>rclcpp::Clock().now()\<close> is an input: every function that stamps a header
    takes the clock reading as its first argument.
  \<^item> A function that mutates an argument passed by reference returns the new value.
\<close>

subsection \<open>Errors and checked vector access\<close>

datatype error = out_of_range | undefined_behaviour

definition vector_at :: "'a list \<Rightarrow> nat \<Rightarrow> error + 'a" where
  "vector_at v i = (if i < length v then Inr (v ! i) else Inl out_of_range)"

text \<open>Sequencing of computations that may throw: the first exception wins.\<close>

definition bind_res :: "error + 'a \<Rightarrow> ('a \<Rightarrow> error + 'b) \<Rightarrow> error + 'b" where
  "bind_res r f = (case r of Inl e \<Rightarrow> Inl e | Inr v \<Rightarrow> f v)"

text \<open>
  The assignment \<^verbatim>\<open>v.at(i) = a\<close>: it throws outside the vector and never extends it.
\<close>

definition vector_assign :: "'a list \<Rightarrow> nat \<Rightarrow> 'a \<Rightarrow> error + 'a list" where
  "vector_assign v i a = (if i < length v then Inr (v[i := a]) else Inl out_of_range)"

subsection \<open>The range of int\<close>

definition INT_MAX :: int where
  "INT_MAX = 2147483647"

definition INT_MIN :: int where
  "INT_MIN = - 2147483648"

text \<open>
  The value of an \<^verbatim>\<open>int\<close> expression whose mathematical result is \<open>i\<close>: the result
  itself when an \<^verbatim>\<open>int\<close> can hold it, undefined behaviour otherwise.
\<close>

definition int_result :: "int \<Rightarrow> error + int" where
  "int_result i = (if INT_MIN \<le> i \<and> i \<le> INT_MAX then Inr i else Inl undefined_behaviour)"

subsection \<open>Messages\<close>

text \<open>
  The message types come from the packages \<^verbatim>\<open>geometry_msgs\<close>, \<^verbatim>\<open>std_msgs\<close> and
  \<^verbatim>\<open>visualization_msgs\<close>. Only the fields this node writes are kept. The marker
  kinds and actions are the named constants of \<^verbatim>\<open>visualization_msgs::msg::Marker\<close>;
  a value-initialised marker has the kind and the action whose constant is zero
  (\<^verbatim>\<open>ARROW\<close>, \<^verbatim>\<open>ADD\<close>), zero numbers, and empty strings and sequences.
\<close>

record Point =
  point_x :: real
  point_y :: real
  point_z :: real

record Vector3 =
  vec_x :: real
  vec_y :: real
  vec_z :: real

record ColorRGBA =
  col_r :: real
  col_g :: real
  col_b :: real
  col_a :: real

datatype marker_type = ARROW | SPHERE | LINE_STRIP | TEXT_VIEW_FACING

datatype marker_action = ADD | DELETE

record Marker =
  frame_id :: string
  stamp :: nat
  ns :: string
  marker_id :: int
  marker_type :: marker_type
  action :: marker_action
  position :: Point
  scale :: Vector3
  color :: ColorRGBA
  points :: "Point list"
  marker_text :: string

definition Marker_init :: Marker where
  "Marker_init =
     \<lparr>frame_id = [], stamp = 0, ns = [], marker_id = 0, marker_type = ARROW, action = ADD,
      position = \<lparr>point_x = 0, point_y = 0, point_z = 0\<rparr>,
      scale = \<lparr>vec_x = 0, vec_y = 0, vec_z = 0\<rparr>,
      color = \<lparr>col_r = 0, col_g = 0, col_b = 0, col_a = 0\<rparr>,
      points = [], marker_text = []\<rparr>"

subsection \<open>The decimal text of an integer\<close>

text \<open>\<^verbatim>\<open>std::to_string(int)\<close>: decimal digits, with a minus sign for a negative number.\<close>

definition digit_char :: "nat \<Rightarrow> char" where
  "digit_char n = ''0123456789'' ! n"

function to_string_nat :: "nat \<Rightarrow> string" where
  "to_string_nat n =
     (if n < 10 then [digit_char n] else to_string_nat (n div 10) @ [digit_char (n mod 10)])"
  by pat_completeness auto
termination
  by (relation "measure (\<lambda>n. n)") auto

declare to_string_nat.simps [simp del]

definition to_string :: "int \<Rightarrow> string" where
  "to_string i =
     (if i < 0 then CHR ''-'' # to_string_nat (nat (- i)) else to_string_nat (nat i))"

subsection \<open>The countdown text\<close>

definition generate_countdown :: "nat \<Rightarrow> int \<Rightarrow> real list \<Rightarrow> error + Marker" where
  "generate_countdown now count center =
     (let text = Marker_init;
          text = text\<lparr>frame_id := ''/panda_link0''\<rparr>;
          text = text\<lparr>stamp := now\<rparr>;
          text = text\<lparr>ns := ''marker_publisher''\<rparr>;
          text = text\<lparr>action := ADD\<rparr>;
          text = text\<lparr>marker_id := 10\<rparr>;
          text = text\<lparr>marker_type := TEXT_VIEW_FACING\<rparr>;
          text = text\<lparr>scale := (scale text)\<lparr>vec_z := 0.2\<rparr>\<rparr>;
          text =
            (if count = 5 then text\<lparr>color := (color text)\<lparr>col_r := 1\<rparr>\<rparr>
             else if count = 4 then text\<lparr>color := (color text)\<lparr>col_r := 1\<rparr>\<rparr>
             else if count = 3 then text\<lparr>color := (color text)\<lparr>col_r := 1\<rparr>\<rparr>
             else if count = 2 then text\<lparr>color := (color text)\<lparr>col_r := 1, col_g := 1\<rparr>\<rparr>
             else if count = 1 then text\<lparr>color := (color text)\<lparr>col_r := 1, col_g := 1\<rparr>\<rparr>
             else if count = 0 then text\<lparr>color := (color text)\<lparr>col_g := 1\<rparr>\<rparr>
             else text);
          text = text\<lparr>color := (color text)\<lparr>col_a := 1\<rparr>\<rparr>;
          text = text\<lparr>marker_text := to_string count\<rparr>;
          text = (if count = 0 then text\<lparr>marker_text := ''Go!''\<rparr> else text);
          text =
            (if count = - 10
             then text\<lparr>marker_text := ''Stop!'', color := (color text)\<lparr>col_r := 1\<rparr>\<rparr>
             else text)
      in bind_res (vector_at center 0) (\<lambda>c0.
         bind_res (vector_at center 1) (\<lambda>c1.
         bind_res (vector_at center 2) (\<lambda>c2.
           Inr (text\<lparr>position := \<lparr>point_x = c0, point_y = c1, point_z = c2 + 0.05\<rparr>\<rparr>)))))"

subsection \<open>The marker of the tool centre point\<close>

definition generate_tcp_marker :: "nat \<Rightarrow> Marker \<Rightarrow> Marker" where
  "generate_tcp_marker now tcp_marker =
     (let tcp_marker = tcp_marker\<lparr>frame_id := ''/panda_hand_tcp''\<rparr>;
          tcp_marker = tcp_marker\<lparr>stamp := now\<rparr>;
          tcp_marker = tcp_marker\<lparr>ns := ''marker_publisher''\<rparr>;
          tcp_marker = tcp_marker\<lparr>action := ADD\<rparr>;
          tcp_marker = tcp_marker\<lparr>marker_id := 1\<rparr>;
          tcp_marker = tcp_marker\<lparr>marker_type := SPHERE\<rparr>;
          tcp_marker = tcp_marker\<lparr>scale :=
            (scale tcp_marker)\<lparr>vec_x := 0.015, vec_y := 0.015, vec_z := 0.015\<rparr>\<rparr>;
          tcp_marker = tcp_marker\<lparr>color := (color tcp_marker)\<lparr>col_r := 1, col_a := 1\<rparr>\<rparr>;
          tcp_marker = tcp_marker\<lparr>position :=
            (position tcp_marker)\<lparr>point_x := 0, point_y := 0, point_z := 0\<rparr>\<rparr>
      in tcp_marker)"

subsection \<open>The reference ball\<close>

definition generate_ref_ball ::
  "nat \<Rightarrow> Marker \<Rightarrow> real \<Rightarrow> real \<Rightarrow> real \<Rightarrow> real \<Rightarrow> Marker \<Rightarrow> error + Marker" where
  "generate_ref_ball now ref_marker x y z d traj_marker =
     (let ref_marker = ref_marker\<lparr>frame_id := ''/panda_link0''\<rparr>;
          ref_marker = ref_marker\<lparr>stamp := now\<rparr>;
          ref_marker = ref_marker\<lparr>ns := ''marker_publisher''\<rparr>;
          ref_marker = ref_marker\<lparr>action := ADD\<rparr>;
          ref_marker = ref_marker\<lparr>marker_id := 0\<rparr>;
          ref_marker = ref_marker\<lparr>marker_type := SPHERE\<rparr>;
          my_size = 0.015 + d / 20;
          ref_marker = ref_marker\<lparr>scale :=
            (scale ref_marker)\<lparr>vec_x := my_size, vec_y := my_size, vec_z := my_size\<rparr>\<rparr>;
          ref_marker = ref_marker\<lparr>color := (color ref_marker)\<lparr>col_g := 1, col_a := 0.35\<rparr>\<rparr>
      in if x = 0 then
           bind_res (vector_at (points traj_marker) 0) (\<lambda>p0.
           bind_res (vector_at (points traj_marker) 0) (\<lambda>p1.
           bind_res (vector_at (points traj_marker) 0) (\<lambda>p2.
             Inr (ref_marker\<lparr>position := (position ref_marker)
                    \<lparr>point_x := point_x p0, point_y := point_y p1, point_z := point_z p2\<rparr>\<rparr>))))
         else
           Inr (ref_marker\<lparr>position := (position ref_marker)
                  \<lparr>point_x := x, point_y := y, point_z := z\<rparr>\<rparr>))"

subsection \<open>The reference trajectory\<close>

text \<open>
  The loop of \<^verbatim>\<open>generate_traj_marker\<close>, from the counter \<open>count\<close> on. The unqualified
  \<^verbatim>\<open>abs\<close> is read as the absolute value of a \<^verbatim>\<open>double\<close>, the overload the
  call selects when the declarations of \<^verbatim>\<open>std::abs\<close> are visible in the global
  namespace. The test \<^verbatim>\<open>if (use_depth)\<close> on an \<^verbatim>\<open>int\<close> is a test against zero.
  The increment \<^verbatim>\<open>count++\<close> at the end of a round is an \<^verbatim>\<open>int\<close> addition: when
  \<open>count\<close> is \<open>INT_MAX\<close> it overflows.
\<close>

function generate_traj_marker_loop ::
  "int \<Rightarrow> Marker \<Rightarrow> real list \<Rightarrow> int \<Rightarrow> real \<Rightarrow> real \<Rightarrow> real \<Rightarrow> real \<Rightarrow> real \<Rightarrow>
   real \<Rightarrow> real \<Rightarrow> real \<Rightarrow> int \<Rightarrow> error + Marker" where
  "generate_traj_marker_loop count traj_marker origin max_points pa pb pc ps ph
       height width depth use_depth =
     (if count \<le> max_points then
        (let t = real_of_int count / real_of_int max_points * 2 * pi;
             x = 0;
             x = (if use_depth \<noteq> 0 then \<bar>t - pi\<bar> / pi * depth - (depth / 2) else x);
             y = t / (2 * pi) * width - (width / 2);
             z = (ph * height) * (sin (pa * (t + ps)) + sin (pb * (t + ps)) + sin (pc * (t + ps)))
         in case vector_at origin 0 of Inl e \<Rightarrow> Inl e | Inr o0 \<Rightarrow>
           (case vector_at origin 1 of Inl e \<Rightarrow> Inl e | Inr o1 \<Rightarrow>
           (case vector_at origin 2 of Inl e \<Rightarrow> Inl e | Inr o2 \<Rightarrow>
           (case int_result (count + 1) of Inl e \<Rightarrow> Inl e | Inr count' \<Rightarrow>
              generate_traj_marker_loop count'
                (traj_marker\<lparr>points := points traj_marker @
                   [\<lparr>point_x = x + o0, point_y = y + o1, point_z = z + o2\<rparr>]\<rparr>)
                origin max_points pa pb pc ps ph height width depth use_depth))))
      else Inr traj_marker)"
  by pat_completeness auto
termination
  by (relation "measure (\<lambda>(count, traj_marker, origin, max_points, r). nat (max_points + 1 - count))")
    (auto simp: int_result_def split: if_splits)

declare generate_traj_marker_loop.simps [simp del]

definition generate_traj_marker ::
  "nat \<Rightarrow> Marker \<Rightarrow> real list \<Rightarrow> int \<Rightarrow> real \<Rightarrow> real \<Rightarrow> real \<Rightarrow> real \<Rightarrow> real \<Rightarrow>
   real \<Rightarrow> real \<Rightarrow> real \<Rightarrow> int \<Rightarrow> error + Marker" where
  "generate_traj_marker now traj_marker origin max_points pa pb pc ps ph
       height width depth use_depth =
     (let traj_marker = traj_marker\<lparr>frame_id := ''/panda_link0''\<rparr>;
          traj_marker = traj_marker\<lparr>stamp := now\<rparr>;
          traj_marker = traj_marker\<lparr>ns := ''marker_publisher''\<rparr>;
          traj_marker = traj_marker\<lparr>action := ADD\<rparr>;
          traj_marker = traj_marker\<lparr>marker_id := 2\<rparr>;
          traj_marker = traj_marker\<lparr>marker_type := LINE_STRIP\<rparr>;
          traj_marker = traj_marker\<lparr>scale := (scale traj_marker)\<lparr>vec_x := 0.015\<rparr>\<rparr>;
          traj_marker = traj_marker\<lparr>color := (color traj_marker)\<lparr>col_b := 1, col_a := 0.2\<rparr>\<rparr>
      in generate_traj_marker_loop 0 traj_marker origin max_points pa pb pc ps ph
           height width depth use_depth)"

subsection \<open>The node\<close>

text \<open>
  The data members of the class \<^verbatim>\<open>MarkerPublisher\<close>; a member \<^verbatim>\<open>m\<close> is the field
  \<open>this_m\<close>. The constant members are constants here.
\<close>

record MarkerPublisher =
  this_use_depth :: int
  this_part_id :: int
  this_alpha_id :: int
  this_traj_id :: int
  this_origin :: "real list"
  this_ref_pos :: "real list"
  this_bar_center :: "real list"
  this_controller_seconds :: int
  this_countdown_count :: int
  this_pa :: int
  this_pb :: int
  this_pc :: int
  this_ps :: real
  this_ph :: real
  this_traj_height :: real
  this_traj_width :: real
  this_traj_depth :: real
  this_traj_marker :: Marker
  this_ref_marker :: Marker
  this_tcp_marker :: Marker

definition this_max_points :: int where
  "this_max_points = 200"

definition this_max_smoothing_time :: int where
  "this_max_smoothing_time = 5"

text \<open>The default member initialisers.\<close>

definition MarkerPublisher_init :: MarkerPublisher where
  "MarkerPublisher_init =
     \<lparr>this_use_depth = 0, this_part_id = 0, this_alpha_id = 0, this_traj_id = 0,
      this_origin = [0.5059, 0.0, 0.4346],
      this_ref_pos = [0.0, 0.0, 0.0],
      this_bar_center = [0.3, 0.0, 0.05],
      this_controller_seconds = 0, this_countdown_count = 5,
      this_pa = 0, this_pb = 0, this_pc = 0, this_ps = 0.0, this_ph = 0.0,
      this_traj_height = 0.1, this_traj_width = 0.3, this_traj_depth = 0.1,
      this_traj_marker = Marker_init, this_ref_marker = Marker_init,
      this_tcp_marker = Marker_init\<rparr>"

text \<open>
  The constructor. The four node parameters are read from the parameter service, which
  is outside the model: their integer values are the arguments. The timer, the publisher
  and the subscriptions the constructor creates are the callbacks below.
\<close>

definition MarkerPublisher_ctor ::
  "nat \<Rightarrow> int \<Rightarrow> int \<Rightarrow> int \<Rightarrow> int \<Rightarrow> error + MarkerPublisher" where
  "MarkerPublisher_ctor now use_depth part_id alpha_id traj_id =
     (let this = MarkerPublisher_init;
          this = this\<lparr>this_use_depth := use_depth\<rparr>;
          this = this\<lparr>this_part_id := part_id\<rparr>;
          this = this\<lparr>this_alpha_id := alpha_id\<rparr>;
          this = this\<lparr>this_traj_id := traj_id\<rparr>;
          this =
            (if this_traj_id this = 0 then
               this\<lparr>this_pa := 1, this_pb := 1, this_pc := 4, this_ps := pi, this_ph := 0.25\<rparr>
             else if this_traj_id this = 1 then
               this\<lparr>this_pa := 2, this_pb := 3, this_pc := 4, this_ps := 4 * pi / 3,
                    this_ph := 0.25\<rparr>
             else if this_traj_id this = 2 then
               this\<lparr>this_pa := 1, this_pb := 3, this_pc := 4, this_ps := pi, this_ph := 0.25\<rparr>
             else if this_traj_id this = 3 then
               this\<lparr>this_pa := 2, this_pb := 2, this_pc := 5, this_ps := pi, this_ph := 0.2\<rparr>
             else if this_traj_id this = 4 then
               this\<lparr>this_pa := 2, this_pb := 3, this_pc := 5, this_ps := 8 * pi / 5,
                    this_ph := 0.2\<rparr>
             else if this_traj_id this = 5 then
               this\<lparr>this_pa := 2, this_pb := 4, this_pc := 5, this_ps := pi, this_ph := 0.2\<rparr>
             else this)
      in bind_res
           (generate_traj_marker now (this_traj_marker this) (this_origin this) this_max_points
              (real_of_int (this_pa this)) (real_of_int (this_pb this))
              (real_of_int (this_pc this)) (this_ps this) (this_ph this)
              (this_traj_height this) (this_traj_width this) (this_traj_depth this)
              (this_use_depth this))
           (\<lambda>traj_marker. Inr (this\<lparr>this_traj_marker := traj_marker\<rparr>)))"

text \<open>
  The timer callback. It returns the marker array it publishes and the node, whose
  marker members it has rewritten. The three clock readings are those of the three
  generators it calls.
\<close>

definition marker_callback ::
  "nat \<Rightarrow> nat \<Rightarrow> nat \<Rightarrow> MarkerPublisher \<Rightarrow> error + (Marker list \<times> MarkerPublisher)" where
  "marker_callback now1 now2 now3 this =
     (let markers = [];
          markers = markers @ [this_traj_marker this];
          this = this\<lparr>this_tcp_marker := generate_tcp_marker now1 (this_tcp_marker this)\<rparr>;
          markers = markers @ [this_tcp_marker this];
          d = 0.1
      in bind_res (vector_at (this_ref_pos this) 0) (\<lambda>r.
         bind_res
           (if r \<noteq> 0.0 then
              bind_res (vector_at (this_ref_pos this) 0) (\<lambda>r0.
              bind_res (vector_at (this_origin this) 0) (\<lambda>o0. Inr (r0 - o0 + 0.05)))
            else Inr d) (\<lambda>d.
         bind_res (vector_at (this_ref_pos this) 0) (\<lambda>x.
         bind_res (vector_at (this_ref_pos this) 1) (\<lambda>y.
         bind_res (vector_at (this_ref_pos this) 2) (\<lambda>z.
         bind_res (generate_ref_ball now2 (this_ref_marker this) x y z d (this_traj_marker this))
           (\<lambda>ref_marker.
         (let this = this\<lparr>this_ref_marker := ref_marker\<rparr>;
              markers = markers @ [this_ref_marker this]
          in bind_res
               (if this_countdown_count this \<ge> 0 \<or> this_countdown_count this = - 10 then
                  bind_res
                    (generate_countdown now3 (this_countdown_count this) (this_bar_center this))
                    (\<lambda>countdown_text. Inr (markers @ [countdown_text]))
                else Inr markers)
               (\<lambda>markers. Inr (markers, this))))))))))"

text \<open>
  The position callback; the arguments are the three elements of the message's
  \<^verbatim>\<open>ref_position\<close>.
\<close>

definition ref_callback :: "real \<Rightarrow> real \<Rightarrow> real \<Rightarrow> MarkerPublisher \<Rightarrow> error + MarkerPublisher" where
  "ref_callback ref_position0 ref_position1 ref_position2 this =
     bind_res (vector_assign (this_ref_pos this) 0 ref_position0) (\<lambda>v.
     (let this = this\<lparr>this_ref_pos := v\<rparr>
      in bind_res (vector_assign (this_ref_pos this) 1 ref_position1) (\<lambda>v.
         (let this = this\<lparr>this_ref_pos := v\<rparr>
          in bind_res (vector_assign (this_ref_pos this) 2 ref_position2) (\<lambda>v.
               Inr (this\<lparr>this_ref_pos := v\<rparr>))))))"

text \<open>
  The conversion \<^verbatim>\<open>(int) msg.data\<close> discards the fractional part (rounds towards
  zero); it is defined in the source language only when the result fits an \<^verbatim>\<open>int\<close>.
\<close>

definition double_to_int :: "real \<Rightarrow> error + int" where
  "double_to_int d = int_result (if d < 0 then \<lceil>d\<rceil> else \<lfloor>d\<rfloor>)"

text \<open>
  The elapsed-time callback. The difference
  \<^verbatim>\<open>max_smoothing_time - controller_seconds\<close> is an \<^verbatim>\<open>int\<close> subtraction.
\<close>

definition count_callback :: "real \<Rightarrow> MarkerPublisher \<Rightarrow> error + MarkerPublisher" where
  "count_callback data this =
     bind_res (double_to_int data) (\<lambda>seconds.
     (let this = this\<lparr>this_controller_seconds := seconds\<rparr>
      in if this_controller_seconds this \<noteq> 0 then
           bind_res (int_result (this_max_smoothing_time - this_controller_seconds this))
             (\<lambda>count. Inr (this\<lparr>this_countdown_count := count\<rparr>))
         else Inr this))"

text \<open>
  The states of a session: the node as the constructor leaves it, and then after any
  sequence of callbacks that return.
\<close>

inductive reachable :: "MarkerPublisher \<Rightarrow> bool" where
  ctor: "MarkerPublisher_ctor now use_depth part_id alpha_id traj_id = Inr this \<Longrightarrow> reachable this"
| marker_tick: "reachable this \<Longrightarrow> marker_callback now1 now2 now3 this = Inr (markers, this') \<Longrightarrow>
     reachable this'"
| ref_update: "reachable this \<Longrightarrow> ref_callback r0 r1 r2 this = Inr this' \<Longrightarrow> reachable this'"
| count_update: "reachable this \<Longrightarrow> count_callback data this = Inr this' \<Longrightarrow> reachable this'"

subsection \<open>Auxiliary notions\<close>

text \<open>
  The point the body of the loop of \<open>generate_traj_marker\<close> appends at the counter
  \<open>count\<close>, when the origin has its three coordinates.
\<close>

definition traj_sample ::
  "real list \<Rightarrow> int \<Rightarrow> real \<Rightarrow> real \<Rightarrow> real \<Rightarrow> real \<Rightarrow> real \<Rightarrow> real \<Rightarrow> real \<Rightarrow> real \<Rightarrow> int \<Rightarrow>
   int \<Rightarrow> Point" where
  "traj_sample origin max_points pa pb pc ps ph height width depth use_depth count =
     (let t = real_of_int count / real_of_int max_points * 2 * pi;
          x = 0;
          x = (if use_depth \<noteq> 0 then \<bar>t - pi\<bar> / pi * depth - (depth / 2) else x);
          y = t / (2 * pi) * width - (width / 2);
          z = (ph * height) * (sin (pa * (t + ps)) + sin (pb * (t + ps)) + sin (pc * (t + ps)))
      in \<lparr>point_x = x + origin ! 0, point_y = y + origin ! 1, point_z = z + origin ! 2\<rparr>)"

text \<open>
  A node whose three vectors hold their three coordinates: every checked access of the
  callbacks to them is in range.
\<close>

definition wf_node :: "MarkerPublisher \<Rightarrow> bool" where
  "wf_node this \<longleftrightarrow>
     3 \<le> length (this_origin this) \<and> 3 \<le> length (this_ref_pos this) \<and>
     3 \<le> length (this_bar_center this)"

section \<open>Basic facts\<close>

lemma bind_res_Inr [simp]: "bind_res (Inr v) f = f v"
  by (simp add: bind_res_def)

lemma bind_res_Inl [simp]: "bind_res (Inl e) f = Inl e"
  by (simp add: bind_res_def)

lemma to_string_digit:
  "0 \<le> i \<Longrightarrow> i < 10 \<Longrightarrow> to_string i = [''0123456789'' ! nat i]"
  by (simp add: to_string_def to_string_nat.simps digit_char_def)

lemma to_string_examples:
  "to_string 5 = ''5''" "to_string 4 = ''4''" "to_string 3 = ''3''"
  "to_string 2 = ''2''" "to_string 1 = ''1''" "to_string 6 = ''6''"
  by (simp_all add: to_string_digit)

lemma to_string_negative_example: "to_string (- 10) = ''-10''"
  by (simp add: to_string_def to_string_nat.simps digit_char_def)

lemma int_result_in_range:
  "- 2147483648 \<le> i \<Longrightarrow> i \<le> 2147483647 \<Longrightarrow> int_result i = Inr i"
  by (simp add: int_result_def INT_MIN_def INT_MAX_def)

lemma int_result_Inr: "int_result i = Inr j \<Longrightarrow> j = i \<and> - 2147483648 \<le> i \<and> i \<le> 2147483647"
  by (simp add: int_result_def INT_MIN_def INT_MAX_def split: if_splits)

lemma double_to_int_of_int:
  "- 2147483648 \<le> e \<Longrightarrow> e \<le> 2147483647 \<Longrightarrow> double_to_int (of_int e) = Inr e"
  by (simp add: double_to_int_def int_result_in_range)

lemma vector_at_three:
  assumes "3 \<le> length v"
  shows "vector_at v 0 = Inr (v ! 0)" "vector_at v (Suc 0) = Inr (v ! 1)"
    "vector_at v 1 = Inr (v ! 1)" "vector_at v 2 = Inr (v ! 2)"
  using assms by (auto simp: vector_at_def)

lemma generate_traj_marker_loop_points:
  assumes "3 \<le> length origin" and "- 2147483648 \<le> count" and "max_points < 2147483647"
  shows "generate_traj_marker_loop count traj_marker origin max_points pa pb pc ps ph
           height width depth use_depth =
         Inr (traj_marker\<lparr>points := points traj_marker @
                map (traj_sample origin max_points pa pb pc ps ph height width depth use_depth)
                  [count..max_points]\<rparr>)"
  using assms
proof (induction count traj_marker origin max_points pa pb pc ps ph height width depth use_depth
    rule: generate_traj_marker_loop.induct)
  case (1 count traj_marker origin max_points pa pb pc ps ph height width depth use_depth)
  show ?case
  proof (cases "count \<le> max_points")
    case True
    note at = vector_at_three [OF "1.prems"(1)]
    have inc: "int_result (count + 1) = Inr (count + 1)"
      using True "1.prems" by (simp add: int_result_in_range)
    have u: "[count..max_points] = count # [count + 1..max_points]"
      using True by (simp add: upto_rec1)
    have next_lo: "- 2147483648 \<le> count + 1"
      using "1.prems" by simp
    show ?thesis
      apply (subst generate_traj_marker_loop.simps)
      apply (simp only: True if_True Let_def at inc sum.case)
      apply (subst "1.IH" [OF True refl refl refl refl refl at(1) at(3) at(4) inc "1.prems"(1)
            next_lo "1.prems"(3)])
      apply (simp add: u traj_sample_def Let_def)
      done
  next
    case False
    then show ?thesis
      by (subst generate_traj_marker_loop.simps) simp
  qed
qed

text \<open>At \<open>max_points = INT_MAX\<close> the counter overflows: the loop does not return a marker.\<close>

lemma generate_traj_marker_loop_INT_MAX:
  assumes "3 \<le> length origin" and "count \<le> 2147483647"
  shows "generate_traj_marker_loop count traj_marker origin 2147483647 pa pb pc ps ph
           height width depth use_depth = Inl undefined_behaviour"
  using assms
proof (induction count traj_marker origin "2147483647 :: int" pa pb pc ps ph height width depth
    use_depth rule: generate_traj_marker_loop.induct)
  case (1 count traj_marker origin pa pb pc ps ph height width depth use_depth)
  note at = vector_at_three [OF "1.prems"(1)]
  have le: "count \<le> 2147483647"
    by (rule "1.prems"(2))
  show ?case
  proof (cases "count = 2147483647")
    case True
    have "int_result (count + 1) = Inl undefined_behaviour"
      using True by (simp add: int_result_def INT_MAX_def)
    then show ?thesis
      apply (subst generate_traj_marker_loop.simps)
      apply (simp only: le if_True Let_def at sum.case)
      done
  next
    case False
    have lo: "- 2147483648 \<le> count + 1 \<or> count + 1 < - 2147483648"
      by arith
    show ?thesis
    proof (cases "- 2147483648 \<le> count + 1")
      case True
      then have inc: "int_result (count + 1) = Inr (count + 1)"
        using False le by (simp add: int_result_in_range)
      have le': "count + 1 \<le> 2147483647"
        using False le by simp
      show ?thesis
        apply (subst generate_traj_marker_loop.simps)
        apply (simp only: le if_True Let_def at inc sum.case)
        apply (rule "1.hyps" [OF le refl refl refl refl refl at(1) at(3) at(4) inc "1.prems"(1) le'])
        done
    next
      case False
      then have "int_result (count + 1) = Inl undefined_behaviour"
        by (simp add: int_result_def INT_MIN_def)
      then show ?thesis
        apply (subst generate_traj_marker_loop.simps)
        apply (simp only: le if_True Let_def at sum.case)
        done
    qed
  qed
qed

lemma generate_traj_marker_result:
  assumes "3 \<le> length origin" and "max_points < 2147483647"
  shows "\<exists>m. generate_traj_marker now traj_marker origin max_points pa pb pc ps ph
           height width depth use_depth = Inr m
         \<and> points m = points traj_marker @
             map (traj_sample origin max_points pa pb pc ps ph height width depth use_depth)
               [0..max_points]
         \<and> marker_id m = 2 \<and> marker_type m = LINE_STRIP \<and> frame_id m = ''/panda_link0''"
  by (simp add: generate_traj_marker_def Let_def
      generate_traj_marker_loop_points [OF assms(1) _ assms(2)])

lemma generate_traj_marker_INT_MAX:
  assumes "3 \<le> length origin"
  shows "generate_traj_marker now traj_marker origin 2147483647 pa pb pc ps ph
           height width depth use_depth = Inl undefined_behaviour"
  by (simp add: generate_traj_marker_def Let_def generate_traj_marker_loop_INT_MAX [OF assms])

lemma count_callback_result:
  assumes "double_to_int data = Inr e" and "- 2147483642 \<le> e"
  shows "count_callback data this =
     Inr (if e \<noteq> 0
          then this\<lparr>this_controller_seconds := e, this_countdown_count := 5 - e\<rparr>
          else this\<lparr>this_controller_seconds := e\<rparr>)"
proof -
  from assms(1) have "e \<le> 2147483647"
    by (auto simp: double_to_int_def dest: int_result_Inr)
  with assms(2) have "int_result (5 - e) = Inr (5 - e)"
    by (simp add: int_result_in_range)
  then show ?thesis
    by (simp add: count_callback_def assms(1) Let_def this_max_smoothing_time_def)
qed

lemma count_callback_Inr:
  assumes "count_callback data this = Inr this'"
  shows "this_origin this' = this_origin this \<and> this_ref_pos this' = this_ref_pos this
    \<and> this_bar_center this' = this_bar_center this
    \<and> this_traj_marker this' = this_traj_marker this"
  using assms
  by (auto simp: count_callback_def bind_res_def Let_def split: sum.splits if_splits)

lemma count_callback_INT_MIN:
  "count_callback (- 2147483648) this = Inl undefined_behaviour"
proof -
  have "double_to_int (- 2147483648) = Inr (- 2147483648)"
    using double_to_int_of_int [of "- 2147483648"] by simp
  moreover have "int_result (5 - (- 2147483648)) = Inl undefined_behaviour"
    by (simp add: int_result_def INT_MAX_def)
  ultimately show ?thesis
    by (simp add: count_callback_def Let_def this_max_smoothing_time_def)
qed


lemma MarkerPublisher_ctor_result:
  "\<exists>this. MarkerPublisher_ctor now use_depth part_id alpha_id traj_id = Inr this
     \<and> this_origin this = [0.5059, 0.0, 0.4346]
     \<and> this_ref_pos this = [0.0, 0.0, 0.0]
     \<and> this_bar_center this = [0.3, 0.0, 0.05]
     \<and> this_countdown_count this = 5
     \<and> this_use_depth this = use_depth
     \<and> this_traj_id this = traj_id
     \<and> (traj_id \<notin> {0, 1, 2, 3, 4, 5} \<longrightarrow>
          this_pa this = 0 \<and> this_pb this = 0 \<and> this_pc this = 0 \<and>
          this_ps this = 0 \<and> this_ph this = 0)
     \<and> points (this_traj_marker this) =
          map (traj_sample [0.5059, 0.0, 0.4346] 200 (real_of_int (this_pa this))
                 (real_of_int (this_pb this)) (real_of_int (this_pc this)) (this_ps this)
                 (this_ph this) 0.1 0.3 0.1 use_depth) [0..200]
     \<and> marker_id (this_traj_marker this) = 2
     \<and> marker_type (this_traj_marker this) = LINE_STRIP"
  by (simp add: MarkerPublisher_ctor_def MarkerPublisher_init_def Let_def
      generate_traj_marker_def generate_traj_marker_loop_points this_max_points_def
      Marker_init_def)

lemma point_z_traj_sample_flat:
  "point_z (traj_sample origin max_points 0 0 0 0 0 height width depth use_depth count) =
     origin ! 2"
  by (simp add: traj_sample_def Let_def)

lemma Point_updates:
  "p\<lparr>point_x := a, point_y := b, point_z := c\<rparr> = \<lparr>point_x = a, point_y = b, point_z = c\<rparr>"
  by (cases p) simp

lemma Vector3_updates:
  "v\<lparr>vec_x := a, vec_y := b, vec_z := c\<rparr> = \<lparr>vec_x = a, vec_y = b, vec_z = c\<rparr>"
  by (cases v) simp

lemma generate_ref_ball_result:
  assumes "x = 0 \<Longrightarrow> points traj_marker \<noteq> []"
  shows "\<exists>ball. generate_ref_ball now ref_marker x y z d traj_marker = Inr ball
     \<and> position ball =
         (if x = 0 then points traj_marker ! 0 else \<lparr>point_x = x, point_y = y, point_z = z\<rparr>)
     \<and> scale ball = \<lparr>vec_x = 0.015 + d / 20, vec_y = 0.015 + d / 20, vec_z = 0.015 + d / 20\<rparr>
     \<and> marker_id ball = 0 \<and> marker_type ball = SPHERE \<and> frame_id ball = ''/panda_link0''"
proof (cases "x = 0")
  case True
  then have "vector_at (points traj_marker) 0 = Inr (points traj_marker ! 0)"
    using assms by (simp add: vector_at_def)
  then show ?thesis
    using True by (simp add: generate_ref_ball_def Let_def Point_updates Vector3_updates)
next
  case False
  then show ?thesis
    by (simp add: generate_ref_ball_def Let_def Point_updates Vector3_updates)
qed

lemma generate_countdown_result:
  assumes "3 \<le> length center"
  shows "\<exists>text. generate_countdown now count center = Inr text
     \<and> marker_id text = 10 \<and> marker_type text = TEXT_VIEW_FACING
     \<and> frame_id text = ''/panda_link0''
     \<and> marker_text text =
         (if count = 0 then ''Go!'' else if count = - 10 then ''Stop!'' else to_string count)"
  by (simp add: generate_countdown_def Let_def vector_at_three [OF assms] Marker_init_def)

text \<open>
  A count that the switch of \<open>generate_countdown\<close> does not list, other than -10, gets
  its decimal text and no colour channel but alpha.
\<close>

lemma generate_countdown_unlisted:
  assumes "3 \<le> length center" and "count \<notin> {5, 4, 3, 2, 1, 0, - 10}"
  shows "\<exists>text. generate_countdown now count center = Inr text
     \<and> marker_text text = to_string count
     \<and> color text = \<lparr>col_r = 0, col_g = 0, col_b = 0, col_a = 1\<rparr>"
  using assms(2)
  by (simp add: generate_countdown_def Let_def vector_at_three [OF assms(1)] Marker_init_def)

lemma marker_callback_result:
  assumes "wf_node this"
    and "this_ref_pos this ! 0 = 0 \<Longrightarrow> points (this_traj_marker this) \<noteq> []"
  shows "\<exists>ball text.
      generate_ref_ball now2 (this_ref_marker this)
        (this_ref_pos this ! 0) (this_ref_pos this ! 1) (this_ref_pos this ! 2)
        (if this_ref_pos this ! 0 \<noteq> 0 then this_ref_pos this ! 0 - this_origin this ! 0 + 0.05
         else 0.1)
        (this_traj_marker this) = Inr ball
    \<and> generate_countdown now3 (this_countdown_count this) (this_bar_center this) = Inr text
    \<and> marker_callback now1 now2 now3 this =
        Inr ([this_traj_marker this, generate_tcp_marker now1 (this_tcp_marker this), ball] @
             (if this_countdown_count this \<ge> 0 \<or> this_countdown_count this = - 10
              then [text] else []),
             this\<lparr>this_tcp_marker := generate_tcp_marker now1 (this_tcp_marker this),
                  this_ref_marker := ball\<rparr>)"
proof -
  from assms(1) have l: "3 \<le> length (this_origin this)" "3 \<le> length (this_ref_pos this)"
    "3 \<le> length (this_bar_center this)"
    by (simp_all add: wf_node_def)
  obtain ball where ball: "generate_ref_ball now2 (this_ref_marker this)
        (this_ref_pos this ! 0) (this_ref_pos this ! 1) (this_ref_pos this ! 2)
        (if this_ref_pos this ! 0 \<noteq> 0 then this_ref_pos this ! 0 - this_origin this ! 0 + 0.05
         else 0.1)
        (this_traj_marker this) = Inr ball"
    using generate_ref_ball_result [OF assms(2)] by blast
  obtain label where label:
    "generate_countdown now3 (this_countdown_count this) (this_bar_center this) = Inr label"
    using generate_countdown_result [OF l(3)] by blast
  have "marker_callback now1 now2 now3 this =
        Inr ([this_traj_marker this, generate_tcp_marker now1 (this_tcp_marker this), ball] @
             (if this_countdown_count this \<ge> 0 \<or> this_countdown_count this = - 10
              then [label] else []),
             this\<lparr>this_tcp_marker := generate_tcp_marker now1 (this_tcp_marker this),
                  this_ref_marker := ball\<rparr>)"
    using ball label
    by (simp add: marker_callback_def Let_def vector_at_three [OF l(1)] vector_at_three [OF l(2)]
        split: if_splits)
  with ball label show ?thesis
    by blast
qed

lemma ref_callback_result:
  assumes "3 \<le> length (this_ref_pos this)"
  shows "ref_callback r0 r1 r2 this =
     Inr (this\<lparr>this_ref_pos := (this_ref_pos this)[0 := r0, 1 := r1, 2 := r2]\<rparr>)"
  using assms by (auto simp: ref_callback_def vector_assign_def Let_def)

text \<open>What every state of a session satisfies.\<close>

lemma reachable_invariant:
  assumes "reachable this"
  shows "wf_node this \<and> length (points (this_traj_marker this)) = 201
    \<and> marker_id (this_traj_marker this) = 2 \<and> marker_type (this_traj_marker this) = LINE_STRIP"
  using assms
proof (induction rule: reachable.induct)
  case (ctor now use_depth part_id alpha_id traj_id this)
  then show ?case
    using MarkerPublisher_ctor_result [of now use_depth part_id alpha_id traj_id]
    by (auto simp: wf_node_def)
next
  case (marker_tick this now1 now2 now3 markers this')
  then have "wf_node this" and "points (this_traj_marker this) \<noteq> []"
    by auto
  then show ?case
    using marker_callback_result [of this now2 now3 now1] marker_tick
    by (auto simp: wf_node_def)
next
  case (ref_update this r0 r1 r2 this')
  then have "3 \<le> length (this_ref_pos this)"
    by (simp add: wf_node_def)
  from ref_callback_result [OF this, of r0 r1 r2] ref_update show ?case
    by (auto simp: wf_node_def)
next
  case (count_update this data this')
  from count_callback_Inr [OF count_update.hyps(2)] count_update.IH show ?case
    by (simp add: wf_node_def)
qed

lemma marker_callback_ball:
  assumes "wf_node this"
    and "this_ref_pos this ! 0 = 0 \<longrightarrow> points (this_traj_marker this) \<noteq> []"
  shows "\<exists>markers this'. marker_callback now1 now2 now3 this = Inr (markers, this')
    \<and> position (markers ! 2) =
        (if this_ref_pos this ! 0 = 0 then points (this_traj_marker this) ! 0
         else \<lparr>point_x = this_ref_pos this ! 0, point_y = this_ref_pos this ! 1,
                point_z = this_ref_pos this ! 2\<rparr>)
    \<and> scale (markers ! 2) =
        (let d = (if this_ref_pos this ! 0 \<noteq> 0
                  then this_ref_pos this ! 0 - this_origin this ! 0 + 0.05 else 0.1);
             my_size = 0.015 + d / 20
         in \<lparr>vec_x = my_size, vec_y = my_size, vec_z = my_size\<rparr>)"
proof -
  from assms(2) have ne: "this_ref_pos this ! 0 = 0 \<Longrightarrow> points (this_traj_marker this) \<noteq> []"
    by simp
  from marker_callback_result [OF assms(1) ne, of now2 now3 now1] obtain ball label where
    b: "generate_ref_ball now2 (this_ref_marker this)
        (this_ref_pos this ! 0) (this_ref_pos this ! 1) (this_ref_pos this ! 2)
        (if this_ref_pos this ! 0 \<noteq> 0 then this_ref_pos this ! 0 - this_origin this ! 0 + 0.05
         else 0.1)
        (this_traj_marker this) = Inr ball"
    and m: "marker_callback now1 now2 now3 this =
        Inr ([this_traj_marker this, generate_tcp_marker now1 (this_tcp_marker this), ball] @
             (if this_countdown_count this \<ge> 0 \<or> this_countdown_count this = - 10
              then [label] else []),
             this\<lparr>this_tcp_marker := generate_tcp_marker now1 (this_tcp_marker this),
                  this_ref_marker := ball\<rparr>)"
    by blast
  from generate_ref_ball_result [of "this_ref_pos this ! 0" "this_traj_marker this" now2
      "this_ref_marker this" "this_ref_pos this ! 1" "this_ref_pos this ! 2"
      "if this_ref_pos this ! 0 \<noteq> 0 then this_ref_pos this ! 0 - this_origin this ! 0 + 0.05
         else 0.1"] ne b
  have "position ball =
        (if this_ref_pos this ! 0 = 0 then points (this_traj_marker this) ! 0
         else \<lparr>point_x = this_ref_pos this ! 0, point_y = this_ref_pos this ! 1,
                point_z = this_ref_pos this ! 2\<rparr>)"
    and "scale ball =
        (let d = (if this_ref_pos this ! 0 \<noteq> 0
                  then this_ref_pos this ! 0 - this_origin this ! 0 + 0.05 else 0.1);
             my_size = 0.015 + d / 20
         in \<lparr>vec_x = my_size, vec_y = my_size, vec_z = my_size\<rparr>)"
    by (auto simp: Let_def)
  then show ?thesis
    by (simp add: m)
qed

lemma session_after_ref_callback:
  "\<exists>this this'. MarkerPublisher_ctor now use_depth part_id alpha_id traj_id = Inr this
     \<and> ref_callback r0 r1 r2 this = Inr this'
     \<and> reachable this' \<and> wf_node this'
     \<and> this_ref_pos this' = [r0, r1, r2]
     \<and> this_origin this' = [0.5059, 0.0, 0.4346]
     \<and> points (this_traj_marker this') \<noteq> []"
proof -
  obtain this where c: "MarkerPublisher_ctor now use_depth part_id alpha_id traj_id = Inr this"
    and o: "this_origin this = [0.5059, 0.0, 0.4346]"
    and p: "this_ref_pos this = [0.0, 0.0, 0.0]"
    using MarkerPublisher_ctor_result [of now use_depth part_id alpha_id traj_id] by blast
  define this' where "this' = this\<lparr>this_ref_pos := (this_ref_pos this)[0 := r0, 1 := r1, 2 := r2]\<rparr>"
  have rc: "ref_callback r0 r1 r2 this = Inr this'"
    unfolding this'_def by (rule ref_callback_result) (simp add: p)
  have r: "reachable this'"
    using reachable.ctor [OF c] rc by (rule reachable.ref_update)
  from reachable_invariant [OF r] have "wf_node this'" "points (this_traj_marker this') \<noteq> []"
    by auto
  moreover have "this_ref_pos this' = [r0, r1, r2]" "this_origin this' = [0.5059, 0.0, 0.4346]"
    by (simp_all add: this'_def p o)
  ultimately show ?thesis
    using c rc r by blast
qed

section \<open>The countdown\<close>

text \<open>
  Claim C3. Let an elapsed-time message have a value that truncates to the integer \<open>e\<close>,
  with \<open>e\<close> at least -2147483642, so that \<open>5 - e\<close> is a value of \<^verbatim>\<open>int\<close>. Then
  the callback returns, and it sets the countdown count to \<open>5 - e\<close> (the smoothing time
  less \<open>e\<close>) when \<open>e\<close> is not zero and leaves the count as it was when \<open>e\<close> is zero. The
  six messages 0, 1, 2, 3, 4, 5 in this order give the counts: unchanged, 4, 3, 2, 1, 0.
\<close>

theorem count_callback_countdown:
  assumes "double_to_int data = Inr e" and "- 2147483642 \<le> e"
  shows "(\<exists>this'. count_callback data this = Inr this'
           \<and> this_countdown_count this' =
               (if e \<noteq> 0 then this_max_smoothing_time - e else this_countdown_count this))
     \<and> this_max_smoothing_time = 5
     \<and> (\<exists>s0 s1 s2 s3 s4 s5.
           count_callback 0 this = Inr s0 \<and> count_callback 1 s0 = Inr s1
         \<and> count_callback 2 s1 = Inr s2 \<and> count_callback 3 s2 = Inr s3
         \<and> count_callback 4 s3 = Inr s4 \<and> count_callback 5 s4 = Inr s5
         \<and> map this_countdown_count [s0, s1, s2, s3, s4, s5] =
              [this_countdown_count this, 4, 3, 2, 1, 0])"
proof -
  have one: "\<exists>this'. count_callback data this = Inr this'
           \<and> this_countdown_count this' =
               (if e \<noteq> 0 then this_max_smoothing_time - e else this_countdown_count this)"
    by (simp add: count_callback_result [OF assms] this_max_smoothing_time_def)
  have d: "double_to_int 0 = Inr 0" "double_to_int 1 = Inr 1" "double_to_int 2 = Inr 2"
    "double_to_int 3 = Inr 3" "double_to_int 4 = Inr 4" "double_to_int 5 = Inr 5"
    using double_to_int_of_int [of 0] double_to_int_of_int [of 1] double_to_int_of_int [of 2]
      double_to_int_of_int [of 3] double_to_int_of_int [of 4] double_to_int_of_int [of 5]
    by simp_all
  have run: "\<exists>s0 s1 s2 s3 s4 s5.
           count_callback 0 this = Inr s0 \<and> count_callback 1 s0 = Inr s1
         \<and> count_callback 2 s1 = Inr s2 \<and> count_callback 3 s2 = Inr s3
         \<and> count_callback 4 s3 = Inr s4 \<and> count_callback 5 s4 = Inr s5
         \<and> map this_countdown_count [s0, s1, s2, s3, s4, s5] =
              [this_countdown_count this, 4, 3, 2, 1, 0]"
    by (simp add: count_callback_result [OF d(1)] count_callback_result [OF d(2)]
        count_callback_result [OF d(3)] count_callback_result [OF d(4)]
        count_callback_result [OF d(5)] count_callback_result [OF d(6)])
  from one run show ?thesis
    by (simp add: this_max_smoothing_time_def)
qed

theorem count_callback_countdown_witness:
  "double_to_int 3.7 = Inr 3
   \<and> (\<exists>this'. count_callback 3.7 MarkerPublisher_init = Inr this'
         \<and> this_countdown_count this' = 2)"
proof -
  have d: "double_to_int 3.7 = Inr 3"
    by (simp add: double_to_int_def int_result_in_range)
  have r: "- 2147483642 \<le> (3::int)"
    by simp
  from count_callback_countdown [OF d r, of MarkerPublisher_init] d show ?thesis
    by (auto simp: this_max_smoothing_time_def)
qed

text \<open>
  Claim C4. Given a centre of three coordinates, \<open>generate_countdown\<close> returns a label
  placed at the centre, raised by 0.05 along z. Its text and colour are: for the counts
  5, 4 and 3 the decimal digit in pure red; for 2 and 1 the digit in red plus green; for
  0 the text "Go!" in pure green; for -10 the text "Stop!" in pure red.
\<close>

theorem countdown_render:
  assumes "3 \<le> length center"
  shows "\<exists>text. generate_countdown now count center = Inr text
     \<and> position text = \<lparr>point_x = center ! 0, point_y = center ! 1, point_z = center ! 2 + 0.05\<rparr>
     \<and> (count = 5 \<longrightarrow> marker_text text = ''5''
           \<and> color text = \<lparr>col_r = 1, col_g = 0, col_b = 0, col_a = 1\<rparr>)
     \<and> (count = 4 \<longrightarrow> marker_text text = ''4''
           \<and> color text = \<lparr>col_r = 1, col_g = 0, col_b = 0, col_a = 1\<rparr>)
     \<and> (count = 3 \<longrightarrow> marker_text text = ''3''
           \<and> color text = \<lparr>col_r = 1, col_g = 0, col_b = 0, col_a = 1\<rparr>)
     \<and> (count = 2 \<longrightarrow> marker_text text = ''2''
           \<and> color text = \<lparr>col_r = 1, col_g = 1, col_b = 0, col_a = 1\<rparr>)
     \<and> (count = 1 \<longrightarrow> marker_text text = ''1''
           \<and> color text = \<lparr>col_r = 1, col_g = 1, col_b = 0, col_a = 1\<rparr>)
     \<and> (count = 0 \<longrightarrow> marker_text text = ''Go!''
           \<and> color text = \<lparr>col_r = 0, col_g = 1, col_b = 0, col_a = 1\<rparr>)
     \<and> (count = - 10 \<longrightarrow> marker_text text = ''Stop!''
           \<and> color text = \<lparr>col_r = 1, col_g = 0, col_b = 0, col_a = 1\<rparr>)"
proof -
  have c: "vector_at center 0 = Inr (center ! 0)" "vector_at center (Suc 0) = Inr (center ! 1)"
    "vector_at center 2 = Inr (center ! 2)"
    using assms by (auto simp: vector_at_def)
  show ?thesis
    by (simp add: generate_countdown_def c Marker_init_def to_string_examples Let_def)
qed

theorem countdown_render_witness:
  "(\<exists>text. generate_countdown 7 0 [0.3, 0.0, 0.05] = Inr text
      \<and> position text = \<lparr>point_x = 0.3, point_y = 0, point_z = 0.1\<rparr>
      \<and> marker_text text = ''Go!''
      \<and> color text = \<lparr>col_r = 0, col_g = 1, col_b = 0, col_a = 1\<rparr>)
   \<and> (\<exists>text. generate_countdown 7 4 [0.3, 0.0, 0.05] = Inr text
      \<and> marker_text text = ''4''
      \<and> color text = \<lparr>col_r = 1, col_g = 0, col_b = 0, col_a = 1\<rparr>)
   \<and> (\<exists>text. generate_countdown 7 1 [0.3, 0.0, 0.05] = Inr text
      \<and> marker_text text = ''1''
      \<and> color text = \<lparr>col_r = 1, col_g = 1, col_b = 0, col_a = 1\<rparr>)
   \<and> (\<exists>text. generate_countdown 7 (- 10) [0.3, 0.0, 0.05] = Inr text
      \<and> marker_text text = ''Stop!''
      \<and> color text = \<lparr>col_r = 1, col_g = 0, col_b = 0, col_a = 1\<rparr>)"
proof -
  have go: "\<exists>text. generate_countdown 7 0 [0.3, 0.0, 0.05] = Inr text
      \<and> position text = \<lparr>point_x = 0.3, point_y = 0, point_z = 0.1\<rparr>
      \<and> marker_text text = ''Go!''
      \<and> color text = \<lparr>col_r = 0, col_g = 1, col_b = 0, col_a = 1\<rparr>"
    using countdown_render [of "[0.3, 0.0, 0.05]" 7 0] by simp
  have four: "\<exists>text. generate_countdown 7 4 [0.3, 0.0, 0.05] = Inr text
      \<and> marker_text text = ''4''
      \<and> color text = \<lparr>col_r = 1, col_g = 0, col_b = 0, col_a = 1\<rparr>"
    using countdown_render [of "[0.3, 0.0, 0.05]" 7 4] by auto
  have one: "\<exists>text. generate_countdown 7 1 [0.3, 0.0, 0.05] = Inr text
      \<and> marker_text text = ''1''
      \<and> color text = \<lparr>col_r = 1, col_g = 1, col_b = 0, col_a = 1\<rparr>"
    using countdown_render [of "[0.3, 0.0, 0.05]" 7 1] by auto
  have stop: "\<exists>text. generate_countdown 7 (- 10) [0.3, 0.0, 0.05] = Inr text
      \<and> marker_text text = ''Stop!''
      \<and> color text = \<lparr>col_r = 1, col_g = 0, col_b = 0, col_a = 1\<rparr>"
    using countdown_render [of "[0.3, 0.0, 0.05]" 7 "- 10"] by auto
  from go four one stop show ?thesis
    by (intro conjI)
qed

section \<open>The reference trajectory\<close>

text \<open>
  Claim C1. With an origin of three coordinates and a positive \<open>max_points\<close> below
  \<open>INT_MAX\<close>, \<open>generate_traj_marker\<close> returns, and for every \<open>count\<close> from 0 to \<open>max_points\<close> the
  point it appends at position \<open>count\<close> (position \<open>count\<close> of the marker when the marker
  came in without points, as in the constructor) is the origin plus \<open>(x, y, z)\<close>, where
  \<open>t = count / max_points * 2 * pi\<close>, \<open>x = |t - pi| / pi * depth - depth / 2\<close> when
  \<open>use_depth\<close> is not zero and \<open>0\<close> otherwise, \<open>y = t / (2 * pi) * width - width / 2\<close> and
  \<open>z = ph * height * (sin (pa * (t + ps)) + sin (pb * (t + ps)) + sin (pc * (t + ps)))\<close>.
\<close>

theorem traj_point_formula:
  assumes "3 \<le> length origin" and "0 < max_points" and "max_points < 2147483647"
    and "0 \<le> count" and "count \<le> max_points"
  shows "\<exists>m. generate_traj_marker now traj_marker origin max_points pa pb pc ps ph
           height width depth use_depth = Inr m
         \<and> (let t = real_of_int count / real_of_int max_points * (2 * pi);
                 x = (if use_depth \<noteq> 0 then (\<bar>t - pi\<bar> / pi) * depth - depth / 2 else 0);
                 y = t / (2 * pi) * width - width / 2;
                 z = ph * height *
                       (sin (pa * (t + ps)) + sin (pb * (t + ps)) + sin (pc * (t + ps)))
             in points m ! (length (points traj_marker) + nat count) =
                  \<lparr>point_x = origin ! 0 + x, point_y = origin ! 1 + y,
                   point_z = origin ! 2 + z\<rparr>)"
proof -
  obtain m where m: "generate_traj_marker now traj_marker origin max_points pa pb pc ps ph
           height width depth use_depth = Inr m"
    "points m = points traj_marker @
       map (traj_sample origin max_points pa pb pc ps ph height width depth use_depth)
         [0..max_points]"
    using generate_traj_marker_result [OF assms(1) assms(3)] by blast
  have k: "nat count < length [0..max_points]"
    using assms by simp
  have n: "[0..max_points] ! nat count = count"
    using assms by simp
  have "points m ! (length (points traj_marker) + nat count) =
      traj_sample origin max_points pa pb pc ps ph height width depth use_depth count"
    using k n by (simp add: m(2) nth_append)
  then show ?thesis
    using m(1) by (simp add: traj_sample_def Let_def algebra_simps)
qed

theorem traj_point_formula_witness:
  "\<exists>m. generate_traj_marker 0 Marker_init [0.5059, 0.0, 0.4346] 200 1 1 4 pi 0.25 0.1 0.3 0.1 1
          = Inr m
       \<and> points m ! 100 = \<lparr>point_x = 0.4559, point_y = 0, point_z = 0.4346\<rparr>"
proof -
  have s: "sin (4 * (pi + pi)) = 0"
    using sin_npi_int [of 8] by (simp add: algebra_simps)
  show ?thesis
    using traj_point_formula [of "[0.5059, 0.0, 0.4346]" 200 100 0 Marker_init 1 1 4 pi "0.25"
        "0.1" "0.3" "0.1" 1]
    by (simp add: Marker_init_def Let_def s)
qed

text \<open>
  Claim C2. For every non-negative \<open>max_points = N\<close> below \<open>INT_MAX\<close> and an origin of
  three coordinates, \<open>generate_traj_marker\<close> returns and has appended exactly \<open>N + 1\<close>
  points: a marker that came in without points holds \<open>N + 1\<close> points. In the session
  \<open>max_points\<close> is 200 and the trajectory of the constructor holds 201 points. (At
  \<open>N = INT_MAX\<close> the loop counter overflows, see \<open>generate_traj_marker_INT_MAX\<close>.)
\<close>

theorem generate_traj_marker_length:
  assumes "0 \<le> N" and "N < 2147483647" and "3 \<le> length origin"
  shows "(\<exists>m. generate_traj_marker now traj_marker origin N pa pb pc ps ph
            height width depth use_depth = Inr m
          \<and> length (points m) = length (points traj_marker) + nat N + 1
          \<and> (points traj_marker = [] \<longrightarrow> int (length (points m)) = N + 1))
     \<and> this_max_points = 200
     \<and> (\<exists>this. MarkerPublisher_ctor now p_use_depth p_part_id p_alpha_id p_traj_id = Inr this
          \<and> length (points (this_traj_marker this)) = 201)"
proof -
  obtain m where m: "generate_traj_marker now traj_marker origin N pa pb pc ps ph
           height width depth use_depth = Inr m"
    "points m = points traj_marker @
             map (traj_sample origin N pa pb pc ps ph height width depth use_depth) [0..N]"
    using generate_traj_marker_result [OF assms(3) assms(2)] by blast
  have "length (points m) = length (points traj_marker) + nat N + 1"
    using assms(1) by (simp add: m(2))
  then have general: "\<exists>m. generate_traj_marker now traj_marker origin N pa pb pc ps ph
            height width depth use_depth = Inr m
          \<and> length (points m) = length (points traj_marker) + nat N + 1
          \<and> (points traj_marker = [] \<longrightarrow> int (length (points m)) = N + 1)"
    using m(1) assms(1) by auto
  obtain this where "MarkerPublisher_ctor now p_use_depth p_part_id p_alpha_id p_traj_id = Inr this"
    and "points (this_traj_marker this) =
          map (traj_sample [0.5059, 0.0, 0.4346] 200 (real_of_int (this_pa this))
                 (real_of_int (this_pb this)) (real_of_int (this_pc this)) (this_ps this)
                 (this_ph this) 0.1 0.3 0.1 p_use_depth) [0..200]"
    using MarkerPublisher_ctor_result [of now p_use_depth p_part_id p_alpha_id p_traj_id]
    by blast
  then have session: "\<exists>this.
      MarkerPublisher_ctor now p_use_depth p_part_id p_alpha_id p_traj_id = Inr this
      \<and> length (points (this_traj_marker this)) = 201"
    by simp
  from general session show ?thesis
    by (simp add: this_max_points_def)
qed

theorem generate_traj_marker_length_witness:
  "(\<exists>m. generate_traj_marker 0 Marker_init [0.5059, 0.0, 0.4346] 200 1 1 4 pi 0.25 0.1 0.3 0.1 0
          = Inr m
       \<and> length (points m) = 201)
   \<and> (\<exists>this. MarkerPublisher_ctor 0 0 0 0 0 = Inr this
          \<and> length (points (this_traj_marker this)) = 201)"
proof -
  have "(0::int) \<le> 200" and "(200::int) < 2147483647"
    and "3 \<le> length [0.5059, 0.0, 0.4346 :: real]"
    by simp_all
  from generate_traj_marker_length [OF this, of 0 Marker_init 1 1 4 pi "0.25" "0.1" "0.3" "0.1"
      0 0 0 0 0]
  show ?thesis
    by (simp add: Marker_init_def this_max_points_def)
qed

text \<open>
  Claim C8. For every trajectory identifier outside 0, 1, 2, 3, 4, 5 the constructor
  returns without an error, the coefficients \<open>pa\<close>, \<open>pb\<close>, \<open>pc\<close>, \<open>ps\<close> and \<open>ph\<close> keep
  their initial value zero, and every one of the 201 points of the trajectory has the z
  coordinate of the origin, 0.4346.
\<close>

theorem unknown_traj_id_flat:
  assumes "traj_id \<notin> {0, 1, 2, 3, 4, 5}"
  shows "\<exists>this. MarkerPublisher_ctor now use_depth part_id alpha_id traj_id = Inr this
     \<and> this_pa this = 0 \<and> this_pb this = 0 \<and> this_pc this = 0
     \<and> this_ps this = 0 \<and> this_ph this = 0
     \<and> length (points (this_traj_marker this)) = 201
     \<and> this_origin this ! 2 = 0.4346
     \<and> (\<forall>p \<in> set (points (this_traj_marker this)). point_z p = this_origin this ! 2)"
proof -
  obtain this where c: "MarkerPublisher_ctor now use_depth part_id alpha_id traj_id = Inr this"
    and o: "this_origin this = [0.5059, 0.0, 0.4346]"
    and z: "traj_id \<notin> {0, 1, 2, 3, 4, 5} \<longrightarrow>
          this_pa this = 0 \<and> this_pb this = 0 \<and> this_pc this = 0 \<and>
          this_ps this = 0 \<and> this_ph this = 0"
    and p: "points (this_traj_marker this) =
          map (traj_sample [0.5059, 0.0, 0.4346] 200 (real_of_int (this_pa this))
                 (real_of_int (this_pb this)) (real_of_int (this_pc this)) (this_ps this)
                 (this_ph this) 0.1 0.3 0.1 use_depth) [0..200]"
    using MarkerPublisher_ctor_result [of now use_depth part_id alpha_id traj_id] by blast
  from z assms have z': "this_pa this = 0" "this_pb this = 0" "this_pc this = 0"
    "this_ps this = 0" "this_ph this = 0"
    by simp_all
  have len: "length (points (this_traj_marker this)) = 201"
    by (simp add: p)
  have flat: "\<forall>p \<in> set (points (this_traj_marker this)). point_z p = this_origin this ! 2"
    by (simp add: p z' o point_z_traj_sample_flat)
  from c z' len flat o show ?thesis
    by simp
qed

theorem unknown_traj_id_flat_witness:
  "\<exists>this. MarkerPublisher_ctor 0 0 0 0 6 = Inr this
     \<and> this_pa this = 0 \<and> this_ph this = 0
     \<and> length (points (this_traj_marker this)) = 201
     \<and> point_z (points (this_traj_marker this) ! 100) = 0.4346"
proof -
  have "(6::int) \<notin> {0, 1, 2, 3, 4, 5}"
    by simp
  from unknown_traj_id_flat [OF this, of 0 0 0 0] obtain this where
    t: "MarkerPublisher_ctor 0 0 0 0 6 = Inr this" "this_pa this = 0" "this_ph this = 0"
      "length (points (this_traj_marker this)) = 201" "this_origin this ! 2 = 0.4346"
      "\<forall>p \<in> set (points (this_traj_marker this)). point_z p = this_origin this ! 2"
    by blast
  have "points (this_traj_marker this) ! 100 \<in> set (points (this_traj_marker this))"
    using t(4) by simp
  with t show ?thesis
    by auto
qed

section \<open>The timer callback\<close>

text \<open>
  Claim C10. In every state of a session the trajectory holds 201 points, so the checked
  read of its first point returns; the fallback branch of \<open>generate_ref_ball\<close> (taken
  when the x coordinate it is given is zero) returns a ball placed at that point, and the
  timer callback returns.
\<close>

theorem fallback_first_point_in_bounds:
  assumes "reachable this"
  shows "length (points (this_traj_marker this)) = 201
    \<and> vector_at (points (this_traj_marker this)) 0 = Inr (points (this_traj_marker this) ! 0)
    \<and> (\<exists>ball. generate_ref_ball now ref_marker 0 y z d (this_traj_marker this) = Inr ball
          \<and> position ball = points (this_traj_marker this) ! 0)
    \<and> (\<exists>markers this'. marker_callback now1 now2 now3 this = Inr (markers, this'))"
proof -
  from reachable_invariant [OF assms] have wf: "wf_node this"
    and len: "length (points (this_traj_marker this)) = 201"
    by simp_all
  from len have ne: "points (this_traj_marker this) \<noteq> []"
    by auto
  have at: "vector_at (points (this_traj_marker this)) 0 = Inr (points (this_traj_marker this) ! 0)"
    using ne by (simp add: vector_at_def)
  have ball: "\<exists>ball. generate_ref_ball now ref_marker 0 y z d (this_traj_marker this) = Inr ball
          \<and> position ball = points (this_traj_marker this) ! 0"
    using generate_ref_ball_result [of 0 "this_traj_marker this" now ref_marker y z d] ne
    by auto
  have tick: "\<exists>markers this'. marker_callback now1 now2 now3 this = Inr (markers, this')"
    using marker_callback_result [OF wf, of now2 now3 now1] ne by blast
  from len at ball tick show ?thesis
    by blast
qed

theorem fallback_first_point_in_bounds_witness:
  "\<exists>this. MarkerPublisher_ctor 0 0 0 0 0 = Inr this \<and> reachable this
     \<and> length (points (this_traj_marker this)) = 201
     \<and> (\<exists>markers this'. marker_callback 1 2 3 this = Inr (markers, this'))"
proof -
  obtain this where c: "MarkerPublisher_ctor 0 0 0 0 0 = Inr this"
    using MarkerPublisher_ctor_result [of 0 0 0 0 0] by blast
  then have r: "reachable this"
    by (rule reachable.ctor)
  from fallback_first_point_in_bounds [OF r, of 0 Marker_init 0 0 0 1 2 3] c r show ?thesis
    by blast
qed

text \<open>
  Claim C9. In every state of a session the timer callback returns, and the marker array
  it publishes is, in this order: the trajectory marker (the line strip with identifier
  2), the marker of the tool centre point (identifier 1), the reference ball (the sphere
  with identifier 0) and then, only when the countdown count is non-negative or -10, the
  countdown label (the text with identifier 10).
\<close>

theorem marker_array_order:
  assumes "reachable this"
  shows "\<exists>ball label.
      generate_ref_ball now2 (this_ref_marker this)
        (this_ref_pos this ! 0) (this_ref_pos this ! 1) (this_ref_pos this ! 2)
        (if this_ref_pos this ! 0 \<noteq> 0 then this_ref_pos this ! 0 - this_origin this ! 0 + 0.05
         else 0.1)
        (this_traj_marker this) = Inr ball
    \<and> generate_countdown now3 (this_countdown_count this) (this_bar_center this) = Inr label
    \<and> marker_callback now1 now2 now3 this =
        Inr ([this_traj_marker this, generate_tcp_marker now1 (this_tcp_marker this), ball] @
             (if this_countdown_count this \<ge> 0 \<or> this_countdown_count this = - 10
              then [label] else []),
             this\<lparr>this_tcp_marker := generate_tcp_marker now1 (this_tcp_marker this),
                  this_ref_marker := ball\<rparr>)
    \<and> marker_id (this_traj_marker this) = 2 \<and> marker_type (this_traj_marker this) = LINE_STRIP
    \<and> marker_id (generate_tcp_marker now1 (this_tcp_marker this)) = 1
    \<and> frame_id (generate_tcp_marker now1 (this_tcp_marker this)) = ''/panda_hand_tcp''
    \<and> marker_id ball = 0 \<and> marker_type ball = SPHERE
    \<and> marker_id label = 10 \<and> marker_type label = TEXT_VIEW_FACING"
proof -
  from reachable_invariant [OF assms] have wf: "wf_node this"
    and len: "length (points (this_traj_marker this)) = 201"
    and tr: "marker_id (this_traj_marker this) = 2" "marker_type (this_traj_marker this) = LINE_STRIP"
    by simp_all
  from len have ne: "points (this_traj_marker this) \<noteq> []"
    by auto
  from marker_callback_result [OF wf, of now2 now3 now1] ne obtain ball label where
    b: "generate_ref_ball now2 (this_ref_marker this)
        (this_ref_pos this ! 0) (this_ref_pos this ! 1) (this_ref_pos this ! 2)
        (if this_ref_pos this ! 0 \<noteq> 0 then this_ref_pos this ! 0 - this_origin this ! 0 + 0.05
         else 0.1)
        (this_traj_marker this) = Inr ball"
    and l: "generate_countdown now3 (this_countdown_count this) (this_bar_center this) = Inr label"
    and m: "marker_callback now1 now2 now3 this =
        Inr ([this_traj_marker this, generate_tcp_marker now1 (this_tcp_marker this), ball] @
             (if this_countdown_count this \<ge> 0 \<or> this_countdown_count this = - 10
              then [label] else []),
             this\<lparr>this_tcp_marker := generate_tcp_marker now1 (this_tcp_marker this),
                  this_ref_marker := ball\<rparr>)"
    by blast
  have bi: "marker_id ball = 0 \<and> marker_type ball = SPHERE"
    using generate_ref_ball_result [of "this_ref_pos this ! 0" "this_traj_marker this" now2
        "this_ref_marker this" "this_ref_pos this ! 1" "this_ref_pos this ! 2"
        "if this_ref_pos this ! 0 \<noteq> 0 then this_ref_pos this ! 0 - this_origin this ! 0 + 0.05
         else 0.1"] ne b
    by auto
  have li: "marker_id label = 10 \<and> marker_type label = TEXT_VIEW_FACING"
    using generate_countdown_result [of "this_bar_center this" now3 "this_countdown_count this"]
      wf l
    by (auto simp: wf_node_def)
  have ti: "marker_id (generate_tcp_marker now1 (this_tcp_marker this)) = 1
      \<and> frame_id (generate_tcp_marker now1 (this_tcp_marker this)) = ''/panda_hand_tcp''"
    by (simp add: generate_tcp_marker_def Let_def)
  from b l m tr bi ti li show ?thesis
    by - (rule exI [of _ ball], rule exI [of _ label], simp)
qed

theorem marker_array_order_witness:
  "\<exists>this markers this'. MarkerPublisher_ctor 0 0 0 0 0 = Inr this
     \<and> marker_callback 1 2 3 this = Inr (markers, this')
     \<and> length markers = 4
     \<and> map marker_id markers = [2, 1, 0, 10]"
proof -
  obtain this where c: "MarkerPublisher_ctor 0 0 0 0 0 = Inr this"
    and n: "this_countdown_count this = 5"
    using MarkerPublisher_ctor_result [of 0 0 0 0 0] by blast
  then have r: "reachable this"
    by (simp add: reachable.ctor)
  from marker_array_order [OF r, of 2 3 1] c n show ?thesis
    by auto
qed

text \<open>
  Claim C5, as the code has it. In every state of a session the published array holds a
  countdown label (a marker of the text kind) exactly when the countdown count is
  non-negative or -10: the array then has four markers and the fourth is the label that
  \<open>generate_countdown\<close> returns for the count; otherwise it has three markers.
\<close>

theorem countdown_label_presence:
  assumes "reachable this"
  shows "\<exists>markers this'. marker_callback now1 now2 now3 this = Inr (markers, this')
    \<and> ((\<exists>m \<in> set markers. marker_type m = TEXT_VIEW_FACING) \<longleftrightarrow>
         (this_countdown_count this \<ge> 0 \<or> this_countdown_count this = - 10))
    \<and> (if this_countdown_count this \<ge> 0 \<or> this_countdown_count this = - 10
        then length markers = 4
          \<and> generate_countdown now3 (this_countdown_count this) (this_bar_center this) =
              Inr (markers ! 3)
        else length markers = 3)"
proof -
  from reachable_invariant [OF assms] have wf: "wf_node this"
    and len: "length (points (this_traj_marker this)) = 201"
    and tr: "marker_type (this_traj_marker this) = LINE_STRIP"
    by simp_all
  from len have ne: "points (this_traj_marker this) \<noteq> []"
    by auto
  from marker_callback_result [OF wf, of now2 now3 now1] ne obtain ball label where
    b: "generate_ref_ball now2 (this_ref_marker this)
        (this_ref_pos this ! 0) (this_ref_pos this ! 1) (this_ref_pos this ! 2)
        (if this_ref_pos this ! 0 \<noteq> 0 then this_ref_pos this ! 0 - this_origin this ! 0 + 0.05
         else 0.1)
        (this_traj_marker this) = Inr ball"
    and l: "generate_countdown now3 (this_countdown_count this) (this_bar_center this) = Inr label"
    and m: "marker_callback now1 now2 now3 this =
        Inr ([this_traj_marker this, generate_tcp_marker now1 (this_tcp_marker this), ball] @
             (if this_countdown_count this \<ge> 0 \<or> this_countdown_count this = - 10
              then [label] else []),
             this\<lparr>this_tcp_marker := generate_tcp_marker now1 (this_tcp_marker this),
                  this_ref_marker := ball\<rparr>)"
    by blast
  have bi: "marker_type ball = SPHERE"
    using generate_ref_ball_result [of "this_ref_pos this ! 0" "this_traj_marker this" now2
        "this_ref_marker this" "this_ref_pos this ! 1" "this_ref_pos this ! 2"
        "if this_ref_pos this ! 0 \<noteq> 0 then this_ref_pos this ! 0 - this_origin this ! 0 + 0.05
         else 0.1"] ne b
    by auto
  have li: "marker_type label = TEXT_VIEW_FACING"
    using generate_countdown_result [of "this_bar_center this" now3 "this_countdown_count this"]
      wf l
    by (auto simp: wf_node_def)
  have ti: "marker_type (generate_tcp_marker now1 (this_tcp_marker this)) = SPHERE"
    by (simp add: generate_tcp_marker_def Let_def)
  show ?thesis
    using l tr bi li ti by (simp add: m)
qed

theorem countdown_label_presence_witness:
  "\<exists>this s markers this'. MarkerPublisher_ctor 0 0 0 0 0 = Inr this
     \<and> count_callback 16 this = Inr s
     \<and> marker_callback 1 2 3 s = Inr (markers, this')
     \<and> this_countdown_count s = - 11
     \<and> length markers = 3"
proof -
  obtain this where c: "MarkerPublisher_ctor 0 0 0 0 0 = Inr this"
    using MarkerPublisher_ctor_result [of 0 0 0 0 0] by blast
  have d: "double_to_int 16 = Inr 16"
    using double_to_int_of_int [of 16] by simp
  define s where "s = this\<lparr>this_controller_seconds := 16, this_countdown_count := - 11\<rparr>"
  have cc: "count_callback 16 this = Inr s"
    by (simp add: count_callback_result [OF d] s_def)
  have r: "reachable s"
    using reachable.ctor [OF c] cc by (rule reachable.count_update)
  have n: "this_countdown_count s = - 11"
    by (simp add: s_def)
  from countdown_label_presence [OF r, of 1 2 3] c cc n show ?thesis
    by auto
qed

text \<open>
  The claim as the specification words it, no label for any count outside 5, 4, 3, 2, 1,
  0 and -10, fails for the counts above 5. After the constructor and an elapsed-time
  message of value -1 the count is 6, and the array of the next tick has a fourth marker,
  of the text kind, with the text "6".
\<close>

theorem countdown_label_unknown_count_counterexample:
  "this_countdown_count
     (projr (count_callback (- 1) (projr (MarkerPublisher_ctor 0 0 0 0 0)))) = 6
   \<and> length (fst (projr (marker_callback 1 2 3
         (projr (count_callback (- 1) (projr (MarkerPublisher_ctor 0 0 0 0 0))))))) = 4
   \<and> marker_type (fst (projr (marker_callback 1 2 3
         (projr (count_callback (- 1) (projr (MarkerPublisher_ctor 0 0 0 0 0)))))) ! 3)
       = TEXT_VIEW_FACING
   \<and> marker_text (fst (projr (marker_callback 1 2 3
         (projr (count_callback (- 1) (projr (MarkerPublisher_ctor 0 0 0 0 0)))))) ! 3)
       = ''6''"
proof -
  obtain this where c: "MarkerPublisher_ctor 0 0 0 0 0 = Inr this"
    using MarkerPublisher_ctor_result [of 0 0 0 0 0] by blast
  have d: "double_to_int (- 1) = Inr (- 1)"
    using double_to_int_of_int [of "- 1"] by simp
  define s where "s = this\<lparr>this_controller_seconds := - 1, this_countdown_count := 6\<rparr>"
  have cc: "count_callback (- 1) this = Inr s"
    by (simp add: count_callback_result [OF d] s_def)
  have r: "reachable s"
    using reachable.ctor [OF c] cc by (rule reachable.count_update)
  have n6: "this_countdown_count s = 6"
    by (simp add: s_def)
  from reachable_invariant [OF r] have wf: "wf_node s"
    and ne: "points (this_traj_marker s) \<noteq> []"
    by auto
  from marker_callback_result [OF wf, of 2 3 1] ne n6 obtain ball label where
    l: "generate_countdown 3 6 (this_bar_center s) = Inr label"
    and m: "fst (projr (marker_callback 1 2 3 s)) =
        [this_traj_marker s, generate_tcp_marker 1 (this_tcp_marker s), ball, label]"
    by auto
  have "marker_type label = TEXT_VIEW_FACING \<and> marker_text label = ''6''"
    using generate_countdown_result [of "this_bar_center s" 3 6] wf l
    by (auto simp: wf_node_def to_string_examples)
  with m n6 show ?thesis
    by (simp only: c sum.sel cc) simp
qed

section \<open>The reference ball\<close>

text \<open>
  Claim C6, as the code has it. Let the three vectors of the node hold three coordinates,
  and let the trajectory hold a point when the x coordinate of the reference position is
  zero. Then the timer callback returns and the third marker of its array, the ball, is
  as follows. When the reference x is zero, the ball is at the first point of the
  trajectory, whatever the reference y and z, and its three scales are the fixed size
  \<open>0.015 + 0.1 / 20\<close>. Otherwise the ball is at the reference position and its three
  scales are \<open>0.015 + (ref.x - origin.x + 0.05) / 20\<close>.
\<close>

theorem reference_ball_policy:
  assumes "wf_node this"
    and "this_ref_pos this ! 0 = 0 \<longrightarrow> points (this_traj_marker this) \<noteq> []"
  shows "\<exists>markers this'. marker_callback now1 now2 now3 this = Inr (markers, this')
    \<and> (if this_ref_pos this ! 0 = 0
        then position (markers ! 2) = points (this_traj_marker this) ! 0
          \<and> scale (markers ! 2) =
              \<lparr>vec_x = 0.015 + 0.1 / 20, vec_y = 0.015 + 0.1 / 20, vec_z = 0.015 + 0.1 / 20\<rparr>
        else position (markers ! 2) =
              \<lparr>point_x = this_ref_pos this ! 0, point_y = this_ref_pos this ! 1,
               point_z = this_ref_pos this ! 2\<rparr>
          \<and> scale (markers ! 2) =
              \<lparr>vec_x = 0.015 + (this_ref_pos this ! 0 - this_origin this ! 0 + 0.05) / 20,
               vec_y = 0.015 + (this_ref_pos this ! 0 - this_origin this ! 0 + 0.05) / 20,
               vec_z = 0.015 + (this_ref_pos this ! 0 - this_origin this ! 0 + 0.05) / 20\<rparr>)"
  using marker_callback_ball [OF assms, of now1 now2 now3]
  by (auto simp: Let_def)

theorem reference_ball_policy_witness:
  "\<exists>this markers this'. MarkerPublisher_ctor 0 0 0 0 0 = Inr this
     \<and> marker_callback 1 2 3 this = Inr (markers, this')
     \<and> position (markers ! 2) = points (this_traj_marker this) ! 0
     \<and> scale (markers ! 2) = \<lparr>vec_x = 0.02, vec_y = 0.02, vec_z = 0.02\<rparr>"
proof -
  obtain this where c: "MarkerPublisher_ctor 0 0 0 0 0 = Inr this"
    and p: "this_ref_pos this = [0.0, 0.0, 0.0]"
    using MarkerPublisher_ctor_result [of 0 0 0 0 0] by blast
  from reachable_invariant [OF reachable.ctor [OF c]]
  have wf: "wf_node this" and ne: "this_ref_pos this ! 0 = 0 \<longrightarrow> points (this_traj_marker this) \<noteq> []"
    by auto
  from reference_ball_policy [OF wf ne, of 1 2 3] c p show ?thesis
    by auto
qed

text \<open>
  The fixed size of the fallback branch is not a minimum of the size of the ball. With the
  reference position at the origin of the trajectory, (0.5059, 0, 0.4346), the size is
  0.0175, below \<open>0.015 + 0.1 / 20 = 0.02\<close>.
\<close>

theorem reference_ball_minimum_counterexample:
  "vec_x (scale (fst (projr (marker_callback 1 2 3
      (projr (ref_callback 0.5059 0 0.4346 (projr (MarkerPublisher_ctor 0 0 0 0 0)))))) ! 2))
     = 0.0175
   \<and> vec_x (scale (fst (projr (marker_callback 1 2 3
      (projr (ref_callback 0.5059 0 0.4346 (projr (MarkerPublisher_ctor 0 0 0 0 0)))))) ! 2))
     < 0.015 + 0.1 / 20"
proof -
  from session_after_ref_callback [of 0 0 0 0 0 "0.5059" 0 "0.4346"] obtain this this' where
    c: "MarkerPublisher_ctor 0 0 0 0 0 = Inr this"
    and rc: "ref_callback 0.5059 0 0.4346 this = Inr this'"
    and wf: "wf_node this'"
    and p: "this_ref_pos this' = [0.5059, 0, 0.4346]"
    and o: "this_origin this' = [0.5059, 0.0, 0.4346]"
    by blast
  have ne: "this_ref_pos this' ! 0 = 0 \<longrightarrow> points (this_traj_marker this') \<noteq> []"
    by (simp add: p)
  from marker_callback_ball [OF wf ne, of 1 2 3] obtain markers this'' where
    m: "marker_callback 1 2 3 this' = Inr (markers, this'')"
    and s: "vec_x (scale (markers ! 2)) = 0.0175"
    by (auto simp: p o Let_def)
  show ?thesis
    by (simp only: c sum.sel rc m fst_conv s) simp
qed

text \<open>
  Claim C7, as the code has it. With the reference position (0.55, 0.0, 0.45) and the
  origin x 0.5059 the size of the ball is \<open>0.015 + (0.55 - 0.5059 + 0.05) / 20\<close>, which
  is 0.019705.
\<close>

theorem reference_ball_size_example:
  assumes "wf_node this" and "this_ref_pos this = [0.55, 0.0, 0.45]"
    and "this_origin this ! 0 = 0.5059"
  shows "\<exists>markers this'. marker_callback now1 now2 now3 this = Inr (markers, this')
    \<and> vec_x (scale (markers ! 2)) = 0.015 + (0.55 - 0.5059 + 0.05) / 20
    \<and> scale (markers ! 2) = \<lparr>vec_x = 0.019705, vec_y = 0.019705, vec_z = 0.019705\<rparr>"
proof -
  have ne: "this_ref_pos this ! 0 = 0 \<longrightarrow> points (this_traj_marker this) \<noteq> []"
    by (simp add: assms(2))
  from marker_callback_ball [OF assms(1) ne, of now1 now2 now3] show ?thesis
    by (auto simp: assms(2,3) Let_def)
qed

theorem reference_ball_size_example_witness:
  "\<exists>this this' markers this''. MarkerPublisher_ctor 0 0 0 0 0 = Inr this
     \<and> ref_callback 0.55 0.0 0.45 this = Inr this'
     \<and> marker_callback 1 2 3 this' = Inr (markers, this'')
     \<and> scale (markers ! 2) = \<lparr>vec_x = 0.019705, vec_y = 0.019705, vec_z = 0.019705\<rparr>"
proof -
  from session_after_ref_callback [of 0 0 0 0 0 "0.55" "0.0" "0.45"] obtain this this' where
    c: "MarkerPublisher_ctor 0 0 0 0 0 = Inr this"
    and rc: "ref_callback 0.55 0.0 0.45 this = Inr this'"
    and wf: "wf_node this'"
    and p: "this_ref_pos this' = [0.55, 0.0, 0.45]"
    and o: "this_origin this' = [0.5059, 0.0, 0.4346]"
    by blast
  have o0: "this_origin this' ! 0 = 0.5059"
    by (simp add: o)
  from reference_ball_size_example [OF wf p o0, of 1 2 3] c rc show ?thesis
    by blast
qed

text \<open>
  The value 0.01795 the specification gives for this size is off by more than 0.001: in
  the session state that follows the position message (0.55, 0.0, 0.45), the size of the
  ball is not within 0.001 of 0.01795.
\<close>

theorem reference_ball_size_example_counterexample:
  "\<not> \<bar>vec_x (scale (fst (projr (marker_callback 1 2 3
        (projr (ref_callback 0.55 0.0 0.45 (projr (MarkerPublisher_ctor 0 0 0 0 0)))))) ! 2))
      - 0.01795\<bar> \<le> 0.001"
proof -
  from session_after_ref_callback [of 0 0 0 0 0 "0.55" "0.0" "0.45"] obtain this this' where
    c: "MarkerPublisher_ctor 0 0 0 0 0 = Inr this"
    and rc: "ref_callback 0.55 0.0 0.45 this = Inr this'"
    and wf: "wf_node this'"
    and p: "this_ref_pos this' = [0.55, 0.0, 0.45]"
    and o: "this_origin this' = [0.5059, 0.0, 0.4346]"
    by blast
  have ne: "this_ref_pos this' ! 0 = 0 \<longrightarrow> points (this_traj_marker this') \<noteq> []"
    by (simp add: p)
  from marker_callback_ball [OF wf ne, of 1 2 3] obtain markers this'' where
    m: "marker_callback 1 2 3 this' = Inr (markers, this'')"
    and s: "vec_x (scale (markers ! 2)) = 0.019705"
    by (auto simp: p o Let_def)
  show ?thesis
    by (simp only: c sum.sel rc m fst_conv s) simp
qed

end
